theory Spec2Isabelle
  imports Main
begin

section \<open>Errors\<close>

text \<open>
  A Go \<open>error\<close> is an interface value; the two implementations this repository creates are
  \<open>*errors.errorString\<close> (\<open>errors.New\<close>, doco.go lines 31, 62 and 87) and
  \<open>*fmt.wrapError\<close> (\<open>fmt.Errorf\<close> with \<open>%w\<close>, the migration helpers). Both are
  pointers, and \<open>==\<close> on errors compares the pointers, so each value carries the address it
  was allocated at. The nil error is \<open>None\<close> of \<open>error option\<close>.
\<close>

datatype error =
    errorString nat string
  | wrapError nat string error

fun error_Error :: "error \<Rightarrow> string" where
  "error_Error (errorString p s) = s"
| "error_Error (wrapError p msg e) = msg"

text \<open>
  The part of the process state the functions below touch: the next free address of the
  allocator, what has been printed on standard output, and the wall clock read by
  \<open>time.Now\<close>.
\<close>

record world =
  next_ptr :: nat
  stdout :: "string list"
  now :: nat

definition errors_New :: "string \<Rightarrow> world \<Rightarrow> error \<times> world" where
  "errors_New text s = (errorString (next_ptr s) text, s\<lparr>next_ptr := Suc (next_ptr s)\<rparr>)"

definition fmt_Errorf_w :: "string \<Rightarrow> error \<Rightarrow> world \<Rightarrow> error \<times> world" where
  \<comment> \<open>\<open>fmt.Errorf(prefix + "%w", err)\<close>, as in \<open>fmt.Errorf("migrate: %w", err)\<close>\<close>
  "fmt_Errorf_w prefix err s =
     (wrapError (next_ptr s) (prefix @ error_Error err) err, s\<lparr>next_ptr := Suc (next_ptr s)\<rparr>)"

definition fmt_Println :: "string \<Rightarrow> world \<Rightarrow> world" where
  "fmt_Println text s = s\<lparr>stdout := stdout s @ [text @ ''\<newline>'']\<rparr>"

definition ErrNotImplemented :: error where
  \<comment> \<open>allocated once, when the package is initialised\<close>
  "ErrNotImplemented = errorString 0 ''not implemented''"

definition init_world :: world where
  "init_world = \<lparr>next_ptr = 1, stdout = [], now = 0\<rparr>"

section \<open>The error envelope\<close>

record ErrorResponse =
  Err_field :: string
  Message :: string

text \<open>
  \<open>Err(err, message...)\<close>: the variadic \<open>message\<close> is a list. The argument is a non-nil
  error (every call site passes one; \<open>Err(nil)\<close> would dereference nil).
\<close>

definition Err :: "error \<Rightarrow> string list \<Rightarrow> ErrorResponse" where
  "Err err message =
     (let e = \<lparr>Err_field = error_Error err, Message = error_Error err\<rparr>
      in case message of
           [] \<Rightarrow> e
         | m # _ \<Rightarrow> e\<lparr>Message := m\<rparr>)"

definition Unwrap :: "ErrorResponse \<Rightarrow> world \<Rightarrow> error \<times> world" where
  "Unwrap e s = errors_New (Err_field e) s"

definition ErrorResponse_Error :: "ErrorResponse \<Rightarrow> string" where
  "ErrorResponse_Error e = Message e"

subsection \<open>\<open>encoding/json\<close> on a struct of two tagged string fields\<close>

text \<open>
  \<open>json.Marshal\<close> writes a string between double quotes, with HTML escaping switched on.
  A double quote and a backslash are preceded by a backslash; newline, carriage return and
  tab become backslash \<open>n\<close>, \<open>r\<close>, \<open>t\<close>; every other byte below \<open>0x20\<close> and the
  bytes \<open><\<close>, \<open>>\<close>, \<open>&\<close> become backslash \<open>u00XX\<close>; the code points U+2028 and U+2029
  become backslash \<open>u2028\<close> and \<open>u2029\<close>; a byte that does not start a well-formed UTF-8
  sequence becomes backslash \<open>ufffd\<close>; everything else is copied.
\<close>

definition hex :: string where
  "hex = ''0123456789abcdef''"

definition htmlSafe :: "char \<Rightarrow> bool" where
  "htmlSafe c =
     (32 \<le> (of_char c :: nat) \<and> (of_char c :: nat) < 128 \<and> c \<noteq> CHR 0x22 \<and> c \<noteq> CHR 0x5C
      \<and> c \<noteq> CHR ''<'' \<and> c \<noteq> CHR ''>'' \<and> c \<noteq> CHR ''&'')"

definition escapeByte :: "char \<Rightarrow> string" where
  "escapeByte c =
     (if c = CHR 0x5C \<or> c = CHR 0x22 then [CHR 0x5C, c]
      else if c = CHR 0x0A then [CHR 0x5C, CHR ''n'']
      else if c = CHR 0x0D then [CHR 0x5C, CHR ''r'']
      else if c = CHR 0x09 then [CHR 0x5C, CHR ''t'']
      else [CHR 0x5C] @ ''u00'' @ [hex ! ((of_char c :: nat) div 16), hex ! ((of_char c :: nat) mod 16)])"

definition between :: "nat \<Rightarrow> nat \<Rightarrow> char \<Rightarrow> bool" where
  "between lo hi c = (lo \<le> of_char c \<and> of_char c \<le> hi)"

fun continuation :: "nat \<Rightarrow> string \<Rightarrow> bool" where
  "continuation 0 bs = True"
| "continuation (Suc n) [] = False"
| "continuation (Suc n) (b # bs) = (between 0x80 0xBF b \<and> continuation n bs)"

definition multibyte :: "nat \<Rightarrow> nat \<Rightarrow> nat \<Rightarrow> string \<Rightarrow> nat" where
  \<comment> \<open>a sequence of \<open>n\<close> bytes whose second byte lies in \<open>lo..hi\<close>; 0 when ill-formed\<close>
  "multibyte n lo hi r =
     (case r of
        [] \<Rightarrow> 0
      | b1 # r' \<Rightarrow> if between lo hi b1 \<and> continuation (n - 2) r' then n else 0)"

definition runeLen :: "string \<Rightarrow> nat" where
  \<comment> \<open>length of the well-formed UTF-8 sequence at the head (\<open>utf8.DecodeRuneInString\<close>), 0 if none\<close>
  "runeLen s =
     (case s of
        [] \<Rightarrow> 0
      | b0 # r \<Rightarrow>
          if (of_char b0 :: nat) < 0x80 then 1
          else if between 0xC2 0xDF b0 then multibyte 2 0x80 0xBF r
          else if between 0xE0 0xE0 b0 then multibyte 3 0xA0 0xBF r
          else if between 0xE1 0xEC b0 then multibyte 3 0x80 0xBF r
          else if between 0xED 0xED b0 then multibyte 3 0x80 0x9F r
          else if between 0xEE 0xEF b0 then multibyte 3 0x80 0xBF r
          else if between 0xF0 0xF0 b0 then multibyte 4 0x90 0xBF r
          else if between 0xF1 0xF3 b0 then multibyte 4 0x80 0xBF r
          else if between 0xF4 0xF4 b0 then multibyte 4 0x80 0x8F r
          else 0)"

fun encodeString :: "nat \<Rightarrow> string \<Rightarrow> string" where
  \<comment> \<open>the first argument counts the bytes still to skip of a sequence already written\<close>
  "encodeString k [] = []"
| "encodeString k (b # bs) =
     (if 0 < k then encodeString (k - 1) bs
      else if (of_char b :: nat) < 0x80
        then (if htmlSafe b then [b] else escapeByte b) @ encodeString 0 bs
      else if runeLen (b # bs) = 0
        then [CHR 0x5C] @ ''ufffd'' @ encodeString 0 bs
      else if take 3 (b # bs) = [CHR 0xE2, CHR 0x80, CHR 0xA8]
        then [CHR 0x5C] @ ''u2028'' @ encodeString 2 bs
      else if take 3 (b # bs) = [CHR 0xE2, CHR 0x80, CHR 0xA9]
        then [CHR 0x5C] @ ''u2029'' @ encodeString 2 bs
      else take (runeLen (b # bs)) (b # bs) @ encodeString (runeLen (b # bs) - 1) bs)"

definition json_string :: "string \<Rightarrow> string" where
  "json_string s = [CHR 0x22] @ encodeString 0 s @ [CHR 0x22]"

definition json_Marshal :: "ErrorResponse \<Rightarrow> error + string" where
  \<comment> \<open>the fields in declaration order under their tags \<open>err\<close> and \<open>message\<close>; never an error\<close>
  "json_Marshal e =
     Inr (''{'' @ json_string ''err'' @ '':'' @ json_string (Err_field e) @ '','' @
          json_string ''message'' @ '':'' @ json_string (Message e) @ ''}'')"

definition JSON :: "ErrorResponse \<Rightarrow> world \<Rightarrow> string \<times> world" where
  "JSON e s =
     (case json_Marshal e of
        Inl err \<Rightarrow> ('''', fmt_Println (error_Error err) s)
      | Inr b \<Rightarrow> (b, s))"

section \<open>Requests and response writers\<close>

text \<open>
  \<open>http.ResponseWriter\<close> is an interface: what a handler does to it is the sequence of calls
  it makes on it, in order. A writer is therefore the list of the calls made so far.
  \<open>Header_Add k v\<close> is \<open>w.Header().Add(k, v)\<close>, \<open>http_Error msg code\<close> is
  \<open>http.Error(w, msg, code)\<close>, \<open>http_ServeContent name modtime content\<close> is
  \<open>http.ServeContent(w, r, name, modtime, bytes.NewReader(content))\<close> and
  \<open>json_Encode v\<close> is \<open>json.NewEncoder(w).Encode(v)\<close>.
\<close>

datatype 'a call =
    Header_Add string string
  | http_Error string int
  | http_ServeContent string nat string
  | json_Encode 'a

type_synonym 'a ResponseWriter = "'a call list"

fun Header_Values :: "'a ResponseWriter \<Rightarrow> string \<Rightarrow> string list" where
  \<comment> \<open>the values added under a key, in order\<close>
  "Header_Values [] key = []"
| "Header_Values (Header_Add k v # w) key =
     (if k = key then v # Header_Values w key else Header_Values w key)"
| "Header_Values (c # w) key = Header_Values w key"

fun served :: "'a ResponseWriter \<Rightarrow> string list" where
  \<comment> \<open>the contents handed to \<open>http.ServeContent\<close>\<close>
  "served [] = []"
| "served (http_ServeContent name t content # w) = content # served w"
| "served (c # w) = served w"

fun errors_sent :: "'a ResponseWriter \<Rightarrow> (string \<times> int) list" where
  \<comment> \<open>the replies made through \<open>http.Error\<close>\<close>
  "errors_sent [] = []"
| "errors_sent (http_Error msg code # w) = (msg, code) # errors_sent w"
| "errors_sent (c # w) = errors_sent w"

fun encoded :: "'a ResponseWriter \<Rightarrow> 'a list" where
  \<comment> \<open>the success bodies written through the JSON encoder\<close>
  "encoded [] = []"
| "encoded (json_Encode v # w) = v # encoded w"
| "encoded (c # w) = encoded w"

record request =
  URLParam :: "string \<Rightarrow> string"

definition chi_URLParam :: "request \<Rightarrow> string \<Rightarrow> string" where
  "chi_URLParam r key = URLParam r key"

type_synonym 'a HandlerFunc =
  "request \<Rightarrow> 'a ResponseWriter \<times> world \<Rightarrow> ('a option \<times> int \<times> error option) \<times> 'a ResponseWriter \<times> world"

section \<open>The \<open>withError\<close> adapter\<close>

text \<open>
  \<open>Encode\<close> says whether \<open>json.NewEncoder(w).Encode(result)\<close> fails for a result.
\<close>

definition reply_error :: "error \<Rightarrow> string list \<Rightarrow> int \<Rightarrow> 'a ResponseWriter \<times> world \<Rightarrow> 'a ResponseWriter \<times> world" where
  \<comment> \<open>\<open>fmt.Println(err); http.Error(w, Err(err, message...).JSON(), code)\<close>\<close>
  "reply_error err message code = (\<lambda>(w, s).
     let s1 = fmt_Println (error_Error err) s;
         (body, s2) = JSON (Err err message) s1
     in (w @ [http_Error body code], s2))"

definition withError :: "('a \<Rightarrow> error option) \<Rightarrow> 'a HandlerFunc \<Rightarrow> request \<Rightarrow> 'a ResponseWriter \<times> world \<Rightarrow> 'a ResponseWriter \<times> world" where
  "withError Encode next r ws =
     (case next r ws of
        ((result, code, err), w, s) \<Rightarrow>
          (case err of
             Some e \<Rightarrow> reply_error e [] code (w, s)
           | None \<Rightarrow>
               (case result of
                  None \<Rightarrow>
                    (let (e, s1) = (case err of
                                      None \<Rightarrow> errors_New ''no response'' s
                                    | Some e' \<Rightarrow> (e', s))
                     in reply_error e [''no response''] code (w, s1))
                | Some res \<Rightarrow>
                    (case Encode res of
                       Some e \<Rightarrow> reply_error e [] code (w @ [json_Encode res], s)
                     | None \<Rightarrow> (w @ [json_Encode res], s)))))"

definition checkHandler :: "unit HandlerFunc" where
  "checkHandler r ws = ((Some (), 200, None), ws)"

definition metricsHandler :: "'a HandlerFunc" where
  "metricsHandler r ws = ((None, 200, Some ErrNotImplemented), ws)"

section \<open>The blob handler\<close>

record Blob =
  FileName :: string
  MimeType :: string
  File :: string

text \<open>
  \<open>OneG\<close> is the query \<open>db.Blobs(db.BlobWhere.FileName.EQ(key)).OneG()\<close> of the
  generated \<open>doco/db\<close> package against the current store: a blob or an error.
\<close>

definition blobHandler :: "(string \<Rightarrow> error + Blob) \<Rightarrow> request \<Rightarrow> 'a ResponseWriter \<times> world \<Rightarrow> 'a ResponseWriter \<times> world" where
  "blobHandler OneG r = (\<lambda>(w, s).
     let blobFilename = chi_URLParam r ''blob_id''
     in case OneG blobFilename of
          Inl err \<Rightarrow>
            (let (body, s1) = JSON (Err err []) s
             in (w @ [http_Error body 400], s1))
        | Inr blob \<Rightarrow>
            (let w1 = (if MimeType blob \<noteq> '''' \<and> MimeType blob \<noteq> ''unknown''
                       then w @ [Header_Add ''Content-Type'' (MimeType blob)]
                       else w);
                 w2 = w1 @ [Header_Add ''Content-Disposition''
                              (''attachment'' @ '';filename='' @ FileName blob)]
             in (w2 @ [http_ServeContent (FileName blob) (now s) (File blob)], s)))"

section \<open>The routing configuration\<close>

subsection \<open>\<open>text/template\<close>, for text and field actions\<close>

text \<open>
  The template holds literal text and actions of the form \<open>{{ .name }}\<close> only. The lexer
  cuts the text at the delimiters; an action is trimmed and must be a dot followed by an
  identifier, anything else is reported as a parse error.
\<close>

datatype node = TextNode string | FieldNode string

definition isSpace :: "char \<Rightarrow> bool" where
  "isSpace c = (c = CHR '' '' \<or> c = CHR 0x09)"

definition isAlphaNumeric :: "char \<Rightarrow> bool" where
  "isAlphaNumeric c =
     (c = CHR ''_'' \<or> between 48 57 c \<or> between 65 90 c \<or> between 97 122 c)"

definition trimSpace :: "string \<Rightarrow> string" where
  "trimSpace s = rev (dropWhile isSpace (rev (dropWhile isSpace s)))"

definition parseAction :: "string \<Rightarrow> string + node" where
  "parseAction s =
     (case trimSpace s of
        [] \<Rightarrow> Inl ''missing value for command''
      | c # name \<Rightarrow>
          if c = CHR ''.'' \<and> name \<noteq> [] \<and> list_all isAlphaNumeric name
          then Inr (FieldNode name)
          else Inl ''unsupported action'')"

definition textNode :: "string \<Rightarrow> node list" where
  "textNode acc = (if acc = [] then [] else [TextNode acc])"

fun lexText :: "string \<Rightarrow> string \<Rightarrow> string + node list"
  and lexInsideAction :: "string \<Rightarrow> string \<Rightarrow> string + node list" where
  "lexText acc [] = Inr (textNode acc)"
| "lexText acc [c] = Inr (textNode (acc @ [c]))"
| "lexText acc (c # d # cs) =
     (if c = CHR ''{'' \<and> d = CHR ''{''
      then (case lexInsideAction [] cs of
              Inl e \<Rightarrow> Inl e
            | Inr ns \<Rightarrow> Inr (textNode acc @ ns))
      else lexText (acc @ [c]) (d # cs))"
| "lexInsideAction acc [] = Inl ''unclosed action''"
| "lexInsideAction acc [c] = Inl ''unclosed action''"
| "lexInsideAction acc (c # d # cs) =
     (if c = CHR ''}'' \<and> d = CHR ''}''
      then (case parseAction acc of
              Inl e \<Rightarrow> Inl e
            | Inr n \<Rightarrow> (case lexText [] cs of
                          Inl e \<Rightarrow> Inl e
                        | Inr ns \<Rightarrow> Inr (n # ns)))
      else lexInsideAction (acc @ [c]) (d # cs))"

definition template_Parse :: "string \<Rightarrow> string + node list" where
  "template_Parse text = lexText [] text"

text \<open>
  Execution writes the nodes to the buffer in order. The data is a \<open>map[string]string\<close>: a
  field is looked up as a key, and a missing key gives the zero value of the element type,
  the empty string. Writing to a \<open>bytes.Buffer\<close> does not fail.
\<close>

fun template_Execute :: "node list \<Rightarrow> string \<Rightarrow> (string \<rightharpoonup> string) \<Rightarrow> error + string" where
  "template_Execute [] buf data = Inr buf"
| "template_Execute (TextNode t # ns) buf data = template_Execute ns (buf @ t) data"
| "template_Execute (FieldNode f # ns) buf data =
     template_Execute ns (buf @ (case data f of None \<Rightarrow> '''' | Some v \<Rightarrow> v)) data"

definition caddyfileTemplate :: string where
  "caddyfileTemplate =
     ''\<newline>'' @
     ''{{ .caddyAddr}} {\<newline>'' @
     [CHR 0x09] @ ''tls off\<newline>'' @
     ''    proxy /api/ localhost{{ .apiAddr }} {\<newline>'' @
     [CHR 0x09, CHR 0x09] @ ''transparent\<newline>'' @
     [CHR 0x09, CHR 0x09] @ ''websocket\<newline>'' @
     [CHR 0x09, CHR 0x09] @ ''timeout 10m\<newline>'' @
     ''    }\<newline>'' @
     ''    root {{ .rootPath }}\<newline>'' @
     ''    rewrite { \<newline>'' @
     ''        if {path} not_match ^/api\<newline>'' @
     ''        to {path} /\<newline>'' @
     ''    }\<newline>'' @
     ''}\<newline>''"

section \<open>The two servers\<close>

text \<open>
  A context is the background context or one derived from it by \<open>context.WithCancel\<close>,
  with the instant at which its cancel function is called, if ever. A call that blocks
  either returns a value, or never returns, or panics.
\<close>

datatype Context = Background | WithCancel "nat option"

datatype 'a outcome = Returns 'a | Blocks | Panics string

type_synonym logger = "(string \<times> (string \<times> string) list) list"

definition Infow :: "logger \<Rightarrow> string \<Rightarrow> (string \<times> string) list \<Rightarrow> logger" where
  "Infow log msg keysAndValues = log @ [(msg, keysAndValues)]"

subsection \<open>\<open>RunLoadBalancer\<close>\<close>

record caddy =
  AppName :: string
  AppVersion :: string
  Quiet :: bool

record CaddyfileInput =
  Contents :: string
  Filepath :: string
  ServerTypeName :: string

text \<open>
  What a run of \<open>RunLoadBalancer\<close> leaves behind: how the call ended, the logger, the
  package variables of \<open>caddy\<close>, and the input handed to \<open>caddy.Start\<close>, if the run got
  that far.
\<close>

record lb_run =
  lb_outcome :: "error option outcome"
  lb_log :: logger
  lb_caddy :: caddy
  lb_started :: "CaddyfileInput option"

text \<open>
  \<open>Start\<close> is \<open>caddy.Start\<close> (an instance or an error) and \<open>Wait\<close> is
  \<open>instance.Wait()\<close>, which blocks until the instance's servers have stopped.
\<close>

definition RunLoadBalancer ::
  "(caddy \<Rightarrow> CaddyfileInput \<Rightarrow> error + 'i) \<Rightarrow> ('i \<Rightarrow> unit outcome) \<Rightarrow>
   Context \<Rightarrow> 'conn \<Rightarrow> string \<Rightarrow> string \<Rightarrow> string \<Rightarrow> logger \<Rightarrow> caddy \<Rightarrow> lb_run" where
  "RunLoadBalancer Start Wait ctx conn loadBalancerAddr serverAddr rootPath log g =
     (let log1 = Infow log ''start load balancer''
                   [(''lb-addr'', loadBalancerAddr), (''svc-addr'', serverAddr), (''web'', rootPath)];
          g1 = g\<lparr>AppName := ''Doco'', AppVersion := ''0.0.1'', Quiet := True\<rparr>
      in case template_Parse caddyfileTemplate of
           Inl e \<Rightarrow> \<lparr>lb_outcome = Panics e, lb_log = log1, lb_caddy = g1, lb_started = None\<rparr>
         | Inr t \<Rightarrow>
             (let data = [''caddyAddr'' \<mapsto> loadBalancerAddr,
                          ''apiAddr'' \<mapsto> serverAddr,
                          ''rootPath'' \<mapsto> rootPath]
              in case template_Execute t [] data of
                   Inl err \<Rightarrow>
                     \<lparr>lb_outcome = Returns (Some err), lb_log = log1, lb_caddy = g1,
                      lb_started = None\<rparr>
                 | Inr result \<Rightarrow>
                     (let caddyfile = \<lparr>Contents = result, Filepath = ''Caddyfile'',
                                        ServerTypeName = ''http''\<rparr>
                      in \<lparr>lb_outcome =
                            (case Start g1 caddyfile of
                               Inl err \<Rightarrow> Returns (Some err)
                             | Inr instance \<Rightarrow>
                                 (case Wait instance of
                                    Returns u \<Rightarrow> Returns None
                                  | Blocks \<Rightarrow> Blocks
                                  | Panics m \<Rightarrow> Panics m)),
                          lb_log = log1, lb_caddy = g1, lb_started = Some caddyfile\<rparr>)))"

subsection \<open>\<open>RunServer\<close>\<close>

record cors_Options =
  AllowedOrigins :: "string list"
  AllowedMethods :: "string list"
  AllowedHeaders :: "string list"
  ExposedHeaders :: "string list"
  AllowCredentials :: bool
  MaxAge :: int

datatype middleware =
    cors_Handler cors_Options
  | middleware_RequestID
  | middleware_RealIP
  | middleware_Logger
  | middleware_Recoverer

datatype endpoint = API_blobHandler logger | promhttp_Handler

datatype routes =
    Get string endpoint
  | Group "routes list"
  | Route string "routes list"

record router =
  middlewares :: "middleware list"
  tree :: "routes list"

datatype handler = LoadAndSave router

text \<open>
  \<open>ListenAndServe\<close> is \<open>http.ListenAndServe\<close>: it serves on the address until the
  listener fails and then returns that error, which is never nil.
\<close>

definition RunServer ::
  "(string \<Rightarrow> handler \<Rightarrow> error outcome) \<Rightarrow>
   Context \<Rightarrow> 'conn \<Rightarrow> string \<Rightarrow> string \<Rightarrow> logger \<Rightarrow> error outcome \<times> logger" where
  "RunServer ListenAndServe ctx conn serverAddr jwtsecret log =
     (let log1 = Infow log ''start api'' [(''svc-addr'', serverAddr)];
          cors = \<lparr>AllowedOrigins = [''*''],
                  AllowedMethods = [''GET'', ''POST'', ''PUT'', ''DELETE'', ''OPTIONS''],
                  AllowedHeaders = [''Accept'', ''Authorization'', ''Content-Type'', ''X-CSRF-Token''],
                  ExposedHeaders = [''Link''],
                  AllowCredentials = True,
                  MaxAge = 300\<rparr>;
          r = \<lparr>middlewares = [cors_Handler cors, middleware_RequestID, middleware_RealIP,
                               middleware_Logger, middleware_Recoverer],
               tree = [Route ''/api''
                         [Group [Get ''/blobs/{blob_id}'' (API_blobHandler log1)],
                          Group [Get ''/metrics'' promhttp_Handler]]]\<rparr>
      in (ListenAndServe serverAddr (LoadAndSave r), log1))"

section \<open>Reading what was written\<close>

text \<open>
  A reader for the objects the envelope is written as: an opening brace, members of the
  form \<open>"key":"value"\<close> separated by commas, a closing brace, and nothing else. Inside a
  string a backslash takes the next character with it and the first bare double quote
  ends the string. The result is the list of the keys, in order, or \<open>None\<close> when the
  text is not such an object.
\<close>

datatype scan_state =
  AtStart | AtKeyOpen | InKey string | KeyEsc string | AtColon | AtValueOpen | InValue
  | ValueEsc | AfterValue | AtEnd

fun scan :: "scan_state \<Rightarrow> string list \<Rightarrow> string \<Rightarrow> string list option" where
  "scan AtEnd keys [] = Some keys"
| "scan st keys [] = None"
| "scan AtStart keys (c # cs) = (if c = CHR ''{'' then scan AtKeyOpen keys cs else None)"
| "scan AtKeyOpen keys (c # cs) = (if c = CHR 0x22 then scan (InKey []) keys cs else None)"
| "scan (InKey k) keys (c # cs) =
     (if c = CHR 0x22 then scan AtColon (keys @ [k]) cs
      else if c = CHR 0x5C then scan (KeyEsc k) keys cs
      else scan (InKey (k @ [c])) keys cs)"
| "scan (KeyEsc k) keys (c # cs) = scan (InKey (k @ [CHR 0x5C, c])) keys cs"
| "scan AtColon keys (c # cs) = (if c = CHR '':'' then scan AtValueOpen keys cs else None)"
| "scan AtValueOpen keys (c # cs) = (if c = CHR 0x22 then scan InValue keys cs else None)"
| "scan InValue keys (c # cs) =
     (if c = CHR 0x22 then scan AfterValue keys cs
      else if c = CHR 0x5C then scan ValueEsc keys cs
      else scan InValue keys cs)"
| "scan ValueEsc keys (c # cs) = scan InValue keys cs"
| "scan AfterValue keys (c # cs) =
     (if c = CHR '','' then scan AtKeyOpen keys cs
      else if c = CHR ''}'' then scan AtEnd keys cs
      else None)"
| "scan AtEnd keys (c # cs) = None"

definition string_fields :: "string \<Rightarrow> string list option" where
  "string_fields body = scan AtStart [] body"

text \<open>
  A reader for the routing configuration: the text is cut into lines, a line into the
  tokens between blanks, and a line whose first token is \<open>proxy\<close> names the path it
  forwards and, as its third token, the upstream it forwards to.
\<close>

fun lines_of :: "string \<Rightarrow> string \<Rightarrow> string list" where
  "lines_of acc [] = [acc]"
| "lines_of acc (c # cs) =
     (if c = CHR 0x0A then acc # lines_of [] cs else lines_of (acc @ [c]) cs)"

fun tokens :: "string \<Rightarrow> string \<Rightarrow> string list" where
  "tokens acc [] = (if acc = [] then [] else [acc])"
| "tokens acc (c # cs) =
     (if isSpace c then (if acc = [] then [] else [acc]) @ tokens [] cs
      else tokens (acc @ [c]) cs)"

definition proxy_upstream :: "string \<Rightarrow> string list" where
  "proxy_upstream line =
     (case tokens [] line of
        d # path # upstream # rest \<Rightarrow> if d = ''proxy'' then [upstream] else []
      | _ \<Rightarrow> [])"

definition proxy_upstreams :: "string \<Rightarrow> string list" where
  "proxy_upstreams text = concat (map proxy_upstream (lines_of [] text))"

section \<open>Example inputs\<close>

text \<open>
  A store with a PNG image under \<open>a.png\<close> and a blob of unknown type under \<open>raw.bin\<close>;
  every other key fails with the driver's "no rows" error. \<open>GET_blob key\<close> is the request
  \<open>GET /api/blobs/key\<close> as the router hands it to the handler.
\<close>

definition example_store :: "string \<Rightarrow> error + Blob" where
  "example_store key =
     (if key = ''a.png''
      then Inr \<lparr>FileName = ''a.png'', MimeType = ''image/png'', File = ''PNG-bytes''\<rparr>
      else if key = ''raw.bin''
      then Inr \<lparr>FileName = ''raw.bin'', MimeType = ''unknown'', File = ''raw-bytes''\<rparr>
      else Inl (errorString 1 ''sql: no rows in result set''))"

definition GET_blob :: "string \<Rightarrow> request" where
  "GET_blob key = \<lparr>URLParam = (\<lambda>k. if k = ''blob_id'' then key else '''')\<rparr>"

definition silent_handler :: "unit HandlerFunc" where
  \<comment> \<open>a handler that returns \<open>nil, 200, nil\<close> and writes nothing\<close>
  "silent_handler r ws = ((None, 200, None), ws)"

section \<open>Properties\<close>

subsection \<open>Auxiliary facts\<close>

lemma Header_Values_append:
  "Header_Values (w @ w') key = Header_Values w key @ Header_Values w' key"
  by (induction w key rule: Header_Values.induct) simp_all

lemma served_append: "served (w @ w') = served w @ served w'"
  by (induction w rule: served.induct) simp_all

lemma errors_sent_append: "errors_sent (w @ w') = errors_sent w @ errors_sent w'"
  by (induction w rule: errors_sent.induct) simp_all

lemma encoded_append: "encoded (w @ w') = encoded w @ encoded w'"
  by (induction w rule: encoded.induct) simp_all

lemma json_string_err: "json_string ''err'' = [CHR 0x22] @ ''err'' @ [CHR 0x22]"
  by (simp add: json_string_def htmlSafe_def)

lemma json_string_message: "json_string ''message'' = [CHR 0x22] @ ''message'' @ [CHR 0x22]"
  by (simp add: json_string_def htmlSafe_def)

lemma json_string_no_response:
  "json_string ''no response'' = [CHR 0x22] @ ''no response'' @ [CHR 0x22]"
  by (simp add: json_string_def htmlSafe_def)

lemma scan_InValue_plain:
  "\<forall>c\<in>set xs. c \<noteq> CHR 0x22 \<and> c \<noteq> CHR 0x5C \<Longrightarrow> scan InValue keys (xs @ ys) = scan InValue keys ys"
  by (induction xs) simp_all

lemma hex_plain:
  assumes "i < 16"
  shows "hex ! i \<noteq> CHR 0x22 \<and> hex ! i \<noteq> CHR 0x5C"
proof -
  have "i < length hex" using assms by (simp add: hex_def)
  then have "hex ! i \<in> set hex" by (rule nth_mem)
  moreover have "CHR 0x22 \<notin> set hex" "CHR 0x5C \<notin> set hex" by (simp_all add: hex_def)
  ultimately show ?thesis by metis
qed

lemma of_char_lt_256: "(of_char (c :: char) :: nat) < 256"
  by (cases c) (simp add: of_char_def)

lemma scan_escapeByte:
  "scan InValue keys (escapeByte b @ ys) = scan InValue keys ys"
proof -
  have "(of_char b :: nat) < 16 * 16" using of_char_lt_256 [of b] by simp
  then have d: "(of_char b :: nat) div 16 < 16" by (rule less_mult_imp_div_less)
  have m: "(of_char b :: nat) mod 16 < 16" by simp
  show ?thesis
    using hex_plain [OF d] hex_plain [OF m] by (simp add: escapeByte_def)
qed

lemma continuation_bytes:
  "continuation n bs \<Longrightarrow> c \<in> set (take n bs) \<Longrightarrow> 128 \<le> (of_char c :: nat)"
  by (induction n bs rule: continuation.induct) (auto simp: between_def)

lemma multibyte_bytes:
  assumes "0 < n" "128 \<le> lo" "128 \<le> (of_char b :: nat)"
    and "c \<in> set (take (multibyte n lo hi r) (b # r))"
  shows "128 \<le> (of_char c :: nat)"
proof (cases "multibyte n lo hi r = 0")
  case True
  with assms(4) show ?thesis by simp
next
  case False
  then obtain b1 r' where r: "r = b1 # r'" and b1: "between lo hi b1"
    and k: "continuation (n - 2) r'" and m: "multibyte n lo hi r = n"
    by (auto simp: multibyte_def split: list.splits if_splits)
  from assms(1) obtain n' where n': "n = Suc n'" by (cases n) auto
  from assms(4) m n' have "c = b \<or> c \<in> set (take n' r)" by auto
  then show ?thesis
  proof
    assume "c = b"
    with assms(3) show ?thesis by simp
  next
    assume c: "c \<in> set (take n' r)"
    show ?thesis
    proof (cases n')
      case 0
      with c show ?thesis by simp
    next
      case (Suc n'')
      with c r have "c = b1 \<or> c \<in> set (take n'' r')" by auto
      moreover have "n - 2 = n''" using n' Suc by simp
      ultimately show ?thesis
        using b1 assms(2) continuation_bytes [OF k, of c] by (auto simp: between_def)
    qed
  qed
qed

lemma runeLen_bytes:
  assumes "128 \<le> (of_char b :: nat)" "c \<in> set (take (runeLen (b # bs)) (b # bs))"
  shows "128 \<le> (of_char c :: nat)"
proof -
  have *: "128 \<le> (of_char c :: nat)"
    if "c \<in> set (take (multibyte n lo hi bs) (b # bs))" "0 < n" "128 \<le> lo" for n lo hi
    using multibyte_bytes [OF that(2,3) assms(1) that(1)] .
  show ?thesis
    using assms by (auto simp: runeLen_def split: if_splits dest: *)
qed

lemma high_byte_plain:
  "128 \<le> (of_char c :: nat) \<Longrightarrow> c \<noteq> CHR 0x22 \<and> c \<noteq> CHR 0x5C"
  by auto

lemma scan_encodeString:
  "scan InValue keys (encodeString k s @ ys) = scan InValue keys ys"
proof (induction s arbitrary: k)
  case Nil
  show ?case by simp
next
  case (Cons b bs)
  show ?case
  proof (cases "0 < k")
    case True
    then show ?thesis by (simp add: Cons.IH)
  next
    case k: False
    show ?thesis
    proof (cases "(of_char b :: nat) < 128")
      case True
      show ?thesis
      proof (cases "htmlSafe b")
        case safe: True
        then have "b \<noteq> CHR 0x22" "b \<noteq> CHR 0x5C" by (simp_all add: htmlSafe_def)
        with k True safe show ?thesis by (simp add: Cons.IH)
      next
        case False
        with k True show ?thesis by (simp add: scan_escapeByte Cons.IH)
      qed
    next
      case high: False
      show ?thesis
      proof (cases "runeLen (b # bs) = 0")
        case True
        with k high show ?thesis by (simp add: Cons.IH)
      next
        case valid: False
        have plain: "\<forall>c\<in>set (take (runeLen (b # bs)) (b # bs)). c \<noteq> CHR 0x22 \<and> c \<noteq> CHR 0x5C"
          using runeLen_bytes [of b _ bs] high high_byte_plain by (meson not_less)
        consider (ls) "take 3 (b # bs) = [CHR 0xE2, CHR 0x80, CHR 0xA8]"
          | (ps) "take 3 (b # bs) \<noteq> [CHR 0xE2, CHR 0x80, CHR 0xA8]"
                 "take 3 (b # bs) = [CHR 0xE2, CHR 0x80, CHR 0xA9]"
          | (other) "take 3 (b # bs) \<noteq> [CHR 0xE2, CHR 0x80, CHR 0xA8]"
                    "take 3 (b # bs) \<noteq> [CHR 0xE2, CHR 0x80, CHR 0xA9]"
          by blast
        then show ?thesis
        proof cases
          case ls
          have "encodeString k (b # bs) = [CHR 0x5C] @ ''u2028'' @ encodeString 2 bs"
            using k high valid ls by (simp del: take_Cons_numeral)
          then show ?thesis by (simp add: Cons.IH)
        next
          case ps
          have "encodeString k (b # bs) = [CHR 0x5C] @ ''u2029'' @ encodeString 2 bs"
            using k high valid ps by (simp del: take_Cons_numeral)
          then show ?thesis by (simp add: Cons.IH)
        next
          case other
          have "encodeString k (b # bs) =
                  take (runeLen (b # bs)) (b # bs) @ encodeString (runeLen (b # bs) - 1) bs"
            using k high valid other by (simp del: take_Cons_numeral)
          then show ?thesis
            using scan_InValue_plain [OF plain] by (simp add: Cons.IH)
        qed
      qed
    qed
  qed
qed

lemma string_fields_JSON:
  \<open>string_fields (''{"err":'' @ json_string e @ '',"message":'' @ json_string m @ ''}'') =
     Some [''err'', ''message'']\<close>
  using scan_encodeString [of "[''err'']" 0 e] scan_encodeString [of "[''err'', ''message'']" 0 m]
  by (simp add: string_fields_def json_string_def)

lemma JSON_Err:
  \<open>JSON (Err err message) s =
     (''{"err":'' @ json_string (error_Error err) @ '',"message":'' @
      json_string (case message of [] \<Rightarrow> error_Error err | m # _ \<Rightarrow> m) @ ''}'', s)\<close>
  by (cases message)
     (simp_all add: JSON_def json_Marshal_def Err_def json_string_err json_string_message)

lemma Err_field_Err: "Err_field (Err err message) = error_Error err"
  by (cases message) (simp_all add: Err_def)

lemma reply_error_eq:
  \<open>reply_error err message code (w, s) =
     (w @ [http_Error (''{"err":'' @ json_string (error_Error err) @ '',"message":'' @
                       json_string (case message of [] \<Rightarrow> error_Error err | m # _ \<Rightarrow> m) @ ''}'')
                      code],
      fmt_Println (error_Error err) s)\<close>
  by (simp add: reply_error_def JSON_Err)

lemma withError_metricsHandler:
  \<open>fst (withError Encode metricsHandler r (w, s)) =
     w @ [http_Error ''{"err":"not implemented","message":"not implemented"}'' 200]\<close>
  by (simp add: withError_def metricsHandler_def reply_error_eq ErrNotImplemented_def
      json_string_def htmlSafe_def)

lemma withError_checkHandler:
  "withError (\<lambda>v. None) checkHandler r (w, s) = (w @ [json_Encode ()], s)"
  by (simp add: withError_def checkHandler_def)

lemma blobHandler_found:
  assumes "OneG (chi_URLParam r ''blob_id'') = Inr blob"
  shows "blobHandler OneG r (w, s) =
           (w @ (if MimeType blob \<noteq> '''' \<and> MimeType blob \<noteq> ''unknown''
                 then [Header_Add ''Content-Type'' (MimeType blob)] else []) @
                [Header_Add ''Content-Disposition'' (''attachment;filename='' @ FileName blob),
                 http_ServeContent (FileName blob) (now s) (File blob)],
            s)"
  using assms by (simp add: blobHandler_def Let_def)

lemma blobHandler_failed:
  assumes "OneG (chi_URLParam r ''blob_id'') = Inl err"
  shows \<open>blobHandler OneG r (w, s) =
           (w @ [http_Error (''{"err":'' @ json_string (error_Error err) @ '',"message":'' @
                             json_string (error_Error err) @ ''}'') 400],
            s)\<close>
  using assms by (simp add: blobHandler_def Let_def JSON_Err)

lemma example_store_a_png:
  "example_store (chi_URLParam (GET_blob ''a.png'') ''blob_id'') =
     Inr \<lparr>FileName = ''a.png'', MimeType = ''image/png'', File = ''PNG-bytes''\<rparr>"
  by (simp add: example_store_def GET_blob_def chi_URLParam_def)

lemma example_store_raw_bin:
  "example_store (chi_URLParam (GET_blob ''raw.bin'') ''blob_id'') =
     Inr \<lparr>FileName = ''raw.bin'', MimeType = ''unknown'', File = ''raw-bytes''\<rparr>"
  by (simp add: example_store_def GET_blob_def chi_URLParam_def)

lemma example_store_nonexistent:
  "example_store (chi_URLParam (GET_blob ''nonexistent.png'') ''blob_id'') =
     Inl (errorString 1 ''sql: no rows in result set'')"
  by (simp add: example_store_def GET_blob_def chi_URLParam_def)

lemma template_Parse_caddyfileTemplate:
  "template_Parse caddyfileTemplate =
     Inr [TextNode ''\<newline>'',
          FieldNode ''caddyAddr'',
          TextNode ('' {\<newline>'' @ [CHR 0x09] @ ''tls off\<newline>'' @ ''    proxy /api/ localhost''),
          FieldNode ''apiAddr'',
          TextNode ('' {\<newline>'' @
                    [CHR 0x09, CHR 0x09] @ ''transparent\<newline>'' @
                    [CHR 0x09, CHR 0x09] @ ''websocket\<newline>'' @
                    [CHR 0x09, CHR 0x09] @ ''timeout 10m\<newline>'' @
                    ''    }\<newline>'' @
                    ''    root ''),
          FieldNode ''rootPath'',
          TextNode (''\<newline>'' @
                    ''    rewrite { \<newline>'' @
                    ''        if {path} not_match ^/api\<newline>'' @
                    ''        to {path} /\<newline>'' @
                    ''    }\<newline>'' @
                    ''}\<newline>'')]"
  by (simp add: template_Parse_def caddyfileTemplate_def parseAction_def trimSpace_def
      isSpace_def isAlphaNumeric_def textNode_def between_def)

lemma RunLoadBalancer_started:
  "lb_started (RunLoadBalancer Start Wait ctx conn la ua rp log g) =
     Some \<lparr>Contents =
             ''\<newline>'' @ la @
             '' {\<newline>'' @ [CHR 0x09] @ ''tls off\<newline>'' @ ''    proxy /api/ localhost'' @ ua @
             '' {\<newline>'' @
             [CHR 0x09, CHR 0x09] @ ''transparent\<newline>'' @
             [CHR 0x09, CHR 0x09] @ ''websocket\<newline>'' @
             [CHR 0x09, CHR 0x09] @ ''timeout 10m\<newline>'' @
             ''    }\<newline>'' @
             ''    root '' @ rp @
             ''\<newline>'' @
             ''    rewrite { \<newline>'' @
             ''        if {path} not_match ^/api\<newline>'' @
             ''        to {path} /\<newline>'' @
             ''    }\<newline>'' @
             ''}\<newline>'',
           Filepath = ''Caddyfile'', ServerTypeName = ''http''\<rparr>"
  by (simp add: RunLoadBalancer_def template_Parse_caddyfileTemplate Let_def)

subsection \<open>Cancellation\<close>

text \<open>
  C2 (the code does not do this). The claim: when the shared context is cancelled, both
  servers stop accepting and the blocked run functions return. Neither function reads its
  context: \<open>RunServer\<close> ends exactly as \<open>http.ListenAndServe\<close> does and
  \<open>RunLoadBalancer\<close> exactly as \<open>caddy.Start\<close> and \<open>instance.Wait\<close> do, whatever the
  context is. With a listener that never fails and a context cancelled at instant 0, both
  calls block for ever.
\<close>

theorem run_functions_ignore_cancellation:
  "RunServer ListenAndServe ctx conn serverAddr jwtsecret log =
     RunServer ListenAndServe Background conn serverAddr jwtsecret log
   \<and> RunLoadBalancer Start Wait ctx conn loadBalancerAddr serverAddr rootPath log g =
     RunLoadBalancer Start Wait Background conn loadBalancerAddr serverAddr rootPath log g
   \<and> fst (RunServer (\<lambda>addr h. Blocks) (WithCancel (Some 0)) () '':8081'' ''secret'' []) = Blocks
   \<and> lb_outcome (RunLoadBalancer (\<lambda>g c. Inr ()) (\<lambda>i. Blocks) (WithCancel (Some 0)) ()
                    '':8080'' '':8081'' ''./web/dist'' []
                    \<lparr>AppName = '''', AppVersion = '''', Quiet = False\<rparr>) = Blocks"
  by (simp add: RunServer_def RunLoadBalancer_def template_Parse_caddyfileTemplate Let_def)

subsection \<open>The generated routing configuration\<close>

text \<open>
  C3. The routing configuration is a function of the listen address, the upstream address
  and the static root alone: two runs with the same three inputs hand byte-identical
  input to \<open>caddy.Start\<close>, whatever the context, the connection, the logger, the state of
  the \<open>caddy\<close> package variables and the behaviour of \<open>caddy.Start\<close> and \<open>Wait\<close> are in
  either run (so also when the second run follows the first), and rendering never fails.
\<close>

theorem routing_configuration_deterministic:
  "lb_started (RunLoadBalancer Start Wait ctx conn la ua rp log g) =
     lb_started (RunLoadBalancer Start' Wait' ctx' conn' la ua rp log' g')
   \<and> lb_started (RunLoadBalancer Start Wait ctx conn la ua rp log g) \<noteq> None"
  by (simp add: RunLoadBalancer_started)

text \<open>
  C4, as the code has it. The configuration does not forward to the upstream address for
  every upstream address: the template writes the literal \<open>localhost\<close> in front of it.
  For the upstream address \<open>example.com:8081\<close> the upstream read from the generated
  configuration is \<open>localhostexample.com:8081\<close>.
\<close>

theorem forwards_to_upstream_address_counterexample:
  "map_option (proxy_upstreams \<circ> Contents)
     (lb_started (RunLoadBalancer (\<lambda>g c. Inr ()) (\<lambda>i. Blocks) Background ()
        '':8080'' ''example.com:8081'' ''./web/dist'' []
        \<lparr>AppName = [], AppVersion = [], Quiet = False\<rparr>))
   = Some [''localhostexample.com:8081'']
   \<and> map_option (proxy_upstreams \<circ> Contents)
     (lb_started (RunLoadBalancer (\<lambda>g c. Inr ()) (\<lambda>i. Blocks) Background ()
        '':8080'' ''example.com:8081'' ''./web/dist'' []
        \<lparr>AppName = [], AppVersion = [], Quiet = False\<rparr>))
   \<noteq> Some [''example.com:8081'']"
  by (simp add: RunLoadBalancer_started proxy_upstreams_def proxy_upstream_def isSpace_def)

text \<open>
  C4 (amended). For every listen address \<open>la\<close>, upstream address \<open>ua\<close> and static root
  \<open>rp\<close> the configuration is one site block for \<open>la\<close> holding, in this order:
  \<open>tls off\<close> (no TLS termination); \<open>proxy /api/\<close> to \<open>localhost\<close> followed by the
  upstream address, with the options \<open>transparent\<close>, \<open>websocket\<close> and \<open>timeout 10m\<close>;
  \<open>root rp\<close> (everything else is served from the static root); and a \<open>rewrite\<close> that,
  for a path not matching \<open>^/api\<close>, tries the path itself and then \<open>/\<close>. With the
  default addresses \<open>:8080\<close> and \<open>:8081\<close> the upstream read back is \<open>localhost:8081\<close>.
\<close>

theorem routing_configuration_directives:
  "lb_started (RunLoadBalancer Start Wait ctx conn la ua rp log g) =
     Some \<lparr>Contents =
             ''\<newline>'' @
             la @ '' {\<newline>'' @
             [CHR 0x09] @ ''tls off\<newline>'' @
             ''    proxy /api/ localhost'' @ ua @ '' {\<newline>'' @
             [CHR 0x09, CHR 0x09] @ ''transparent\<newline>'' @
             [CHR 0x09, CHR 0x09] @ ''websocket\<newline>'' @
             [CHR 0x09, CHR 0x09] @ ''timeout 10m\<newline>'' @
             ''    }\<newline>'' @
             ''    root '' @ rp @ ''\<newline>'' @
             ''    rewrite { \<newline>'' @
             ''        if {path} not_match ^/api\<newline>'' @
             ''        to {path} /\<newline>'' @
             ''    }\<newline>'' @
             ''}\<newline>'',
           Filepath = ''Caddyfile'', ServerTypeName = ''http''\<rparr>
   \<and> map_option (proxy_upstreams \<circ> Contents)
         (lb_started (RunLoadBalancer Start Wait ctx conn '':8080'' '':8081'' ''./web/dist'' log g))
       = Some [''localhost:8081'']"
proof -
  have "map_option (proxy_upstreams \<circ> Contents)
          (lb_started (RunLoadBalancer Start Wait ctx conn '':8080'' '':8081'' ''./web/dist'' log g))
        = Some [''localhost:8081'']"
    by (simp add: RunLoadBalancer_started proxy_upstreams_def proxy_upstream_def isSpace_def)
  then show ?thesis
    by (simp add: RunLoadBalancer_started)
qed

text \<open>
  C10. The target of the proxy directive is the literal \<open>localhost\<close> followed by the
  upstream address as given. For the port-style address \<open>:8081\<close> this is
  \<open>localhost:8081\<close>; for an address with a host of its own, \<open>example.com:8081\<close>, it is
  \<open>localhostexample.com:8081\<close>.
\<close>

theorem proxy_target_is_localhost_then_address:
  "map_option Contents (lb_started (RunLoadBalancer Start Wait ctx conn la ua rp log g)) =
     Some ((''\<newline>'' @ la @ '' {\<newline>'' @ [CHR 0x09] @ ''tls off\<newline>'' @ ''    proxy /api/ '') @
           (''localhost'' @ ua) @
           ('' {\<newline>'' @
            [CHR 0x09, CHR 0x09] @ ''transparent\<newline>'' @
            [CHR 0x09, CHR 0x09] @ ''websocket\<newline>'' @
            [CHR 0x09, CHR 0x09] @ ''timeout 10m\<newline>'' @
            ''    }\<newline>'' @
            ''    root '' @ rp @ ''\<newline>'' @
            ''    rewrite { \<newline>'' @
            ''        if {path} not_match ^/api\<newline>'' @
            ''        to {path} /\<newline>'' @
            ''    }\<newline>'' @
            ''}\<newline>''))
   \<and> map_option Contents
         (lb_started (RunLoadBalancer Start Wait ctx conn '':8080'' '':8081'' ''./web/dist'' log g)) =
       Some (''\<newline>'' @
             '':8080 {\<newline>'' @
             [CHR 0x09] @ ''tls off\<newline>'' @
             ''    proxy /api/ localhost:8081 {\<newline>'' @
             [CHR 0x09, CHR 0x09] @ ''transparent\<newline>'' @
             [CHR 0x09, CHR 0x09] @ ''websocket\<newline>'' @
             [CHR 0x09, CHR 0x09] @ ''timeout 10m\<newline>'' @
             ''    }\<newline>'' @
             ''    root ./web/dist\<newline>'' @
             ''    rewrite { \<newline>'' @
             ''        if {path} not_match ^/api\<newline>'' @
             ''        to {path} /\<newline>'' @
             ''    }\<newline>'' @
             ''}\<newline>'')
   \<and> map_option Contents
         (lb_started (RunLoadBalancer Start Wait ctx conn '':8080'' ''example.com:8081'' ''./web/dist'' log g)) =
       Some (''\<newline>'' @
             '':8080 {\<newline>'' @
             [CHR 0x09] @ ''tls off\<newline>'' @
             ''    proxy /api/ localhostexample.com:8081 {\<newline>'' @
             [CHR 0x09, CHR 0x09] @ ''transparent\<newline>'' @
             [CHR 0x09, CHR 0x09] @ ''websocket\<newline>'' @
             [CHR 0x09, CHR 0x09] @ ''timeout 10m\<newline>'' @
             ''    }\<newline>'' @
             ''    root ./web/dist\<newline>'' @
             ''    rewrite { \<newline>'' @
             ''        if {path} not_match ^/api\<newline>'' @
             ''        to {path} /\<newline>'' @
             ''    }\<newline>'' @
             ''}\<newline>'')"
  by (simp add: RunLoadBalancer_started)

subsection \<open>The blob handler\<close>

text \<open>
  C5. For a blob that the lookup finds, the handler adds a \<open>Content-Type\<close> header with
  the blob's mime type if and only if the mime type is non-empty and is not \<open>unknown\<close>;
  otherwise (so for the mime type \<open>unknown\<close>) it adds no \<open>Content-Type\<close> header at all.
  The first conjunct is about any writer, the second about a fresh one.
\<close>

theorem blobHandler_content_type:
  assumes "OneG (chi_URLParam r ''blob_id'') = Inr blob"
  shows "Header_Values (fst (blobHandler OneG r (w :: 'a ResponseWriter, s))) ''Content-Type'' =
           Header_Values w ''Content-Type'' @
           (if MimeType blob \<noteq> '''' \<and> MimeType blob \<noteq> ''unknown'' then [MimeType blob] else [])
         \<and> (MimeType blob \<in> set (Header_Values
                (fst (blobHandler OneG r ([] :: 'a ResponseWriter, s))) ''Content-Type'')
              \<longleftrightarrow> (MimeType blob \<noteq> '''' \<and> MimeType blob \<noteq> ''unknown''))"
  by (simp add: blobHandler_found [of OneG r blob, OF assms] Header_Values_append)

theorem blobHandler_content_type_witness:
  "example_store (chi_URLParam (GET_blob ''a.png'') ''blob_id'') =
     Inr \<lparr>FileName = ''a.png'', MimeType = ''image/png'', File = ''PNG-bytes''\<rparr>
   \<and> Header_Values (fst (blobHandler example_store (GET_blob ''a.png'') ([] :: unit ResponseWriter, init_world)))
        ''Content-Type'' = [''image/png'']
   \<and> example_store (chi_URLParam (GET_blob ''raw.bin'') ''blob_id'') =
     Inr \<lparr>FileName = ''raw.bin'', MimeType = ''unknown'', File = ''raw-bytes''\<rparr>
   \<and> Header_Values (fst (blobHandler example_store (GET_blob ''raw.bin'') ([] :: unit ResponseWriter, init_world)))
        ''Content-Type'' = []"
proof -
  note a = blobHandler_content_type [of example_store "GET_blob ''a.png''"
      "\<lparr>FileName = ''a.png'', MimeType = ''image/png'', File = ''PNG-bytes''\<rparr>"
      "[] :: unit ResponseWriter" init_world, OF example_store_a_png]
  note b = blobHandler_content_type [of example_store "GET_blob ''raw.bin''"
      "\<lparr>FileName = ''raw.bin'', MimeType = ''unknown'', File = ''raw-bytes''\<rparr>"
      "[] :: unit ResponseWriter" init_world, OF example_store_raw_bin]
  have "Header_Values (fst (blobHandler example_store (GET_blob ''a.png'') ([] :: unit ResponseWriter, init_world)))
          ''Content-Type'' = [''image/png'']"
    using a by simp
  moreover
  have "Header_Values (fst (blobHandler example_store (GET_blob ''raw.bin'') ([] :: unit ResponseWriter, init_world)))
          ''Content-Type'' = []"
    using b by simp
  ultimately show ?thesis
    using example_store_a_png example_store_raw_bin by blast
qed

text \<open>
  C6. For a blob that the lookup finds, the handler adds exactly one
  \<open>Content-Disposition\<close> header, \<open>attachment;filename=\<close> followed by the blob's stored
  file name, and the content it serves is the stored bytes (handed to
  \<open>http.ServeContent\<close> under the blob's file name and the current time); it sends no error
  reply.
\<close>

theorem blobHandler_content_disposition_and_body:
  assumes "OneG (chi_URLParam r ''blob_id'') = Inr blob"
  shows "Header_Values (fst (blobHandler OneG r (w, s))) ''Content-Disposition'' =
           Header_Values w ''Content-Disposition'' @ [''attachment;filename='' @ FileName blob]
         \<and> served (fst (blobHandler OneG r (w, s))) = served w @ [File blob]
         \<and> last (fst (blobHandler OneG r (w, s))) =
             http_ServeContent (FileName blob) (now s) (File blob)
         \<and> errors_sent (fst (blobHandler OneG r (w, s))) = errors_sent w"
  by (simp add: blobHandler_found [of OneG r blob, OF assms] Header_Values_append
      served_append errors_sent_append)

theorem blobHandler_content_disposition_and_body_witness:
  "example_store (chi_URLParam (GET_blob ''a.png'') ''blob_id'') =
     Inr \<lparr>FileName = ''a.png'', MimeType = ''image/png'', File = ''PNG-bytes''\<rparr>
   \<and> Header_Values (fst (blobHandler example_store (GET_blob ''a.png'') ([] :: unit ResponseWriter, init_world)))
        ''Content-Disposition'' = [''attachment;filename=a.png'']
   \<and> served (fst (blobHandler example_store (GET_blob ''a.png'') ([] :: unit ResponseWriter, init_world))) =
        [''PNG-bytes'']"
proof -
  note a = blobHandler_content_disposition_and_body [of example_store "GET_blob ''a.png''"
      "\<lparr>FileName = ''a.png'', MimeType = ''image/png'', File = ''PNG-bytes''\<rparr>"
      "[] :: unit ResponseWriter" init_world, OF example_store_a_png]
  have "Header_Values (fst (blobHandler example_store (GET_blob ''a.png'') ([] :: unit ResponseWriter, init_world)))
          ''Content-Disposition'' = [''attachment;filename=a.png'']"
    using a by simp
  moreover
  have "served (fst (blobHandler example_store (GET_blob ''a.png'') ([] :: unit ResponseWriter, init_world))) =
          [''PNG-bytes'']"
    using a by simp
  ultimately show ?thesis
    using example_store_a_png by blast
qed

text \<open>
  C7. For a key whose lookup fails, with whatever error, the handler makes one reply
  through \<open>http.Error\<close>, with status 400 and as body the JSON object with the two members
  \<open>err\<close> and \<open>message\<close>, both the error's text as a JSON string: read back, the body
  is an object whose members are strings and whose keys are exactly \<open>err\<close> and
  \<open>message\<close>. The handler adds no header and serves no blob content.
\<close>

theorem blobHandler_lookup_failure:
  assumes "OneG (chi_URLParam r ''blob_id'') = Inl err"
  shows \<open>fst (blobHandler OneG r (w, s)) =
           w @ [http_Error (''{"err":'' @ json_string (error_Error err) @
                            '',"message":'' @ json_string (error_Error err) @ ''}'') 400]
         \<and> string_fields (''{"err":'' @ json_string (error_Error err) @
                          '',"message":'' @ json_string (error_Error err) @ ''}'') =
             Some [''err'', ''message'']
         \<and> served (fst (blobHandler OneG r (w, s))) = served w\<close>
proof -
  note run = blobHandler_failed [of OneG r err, OF assms]
  have \<open>fst (blobHandler OneG r (w, s)) =
          w @ [http_Error (''{"err":'' @ json_string (error_Error err) @
                           '',"message":'' @ json_string (error_Error err) @ ''}'') 400]\<close>
    by (simp add: run)
  moreover
  have \<open>string_fields (''{"err":'' @ json_string (error_Error err) @
                        '',"message":'' @ json_string (error_Error err) @ ''}'') =
          Some [''err'', ''message'']\<close>
    by (rule string_fields_JSON)
  moreover
  have "served (fst (blobHandler OneG r (w, s))) = served w"
    by (simp add: run served_append)
  ultimately show ?thesis by blast
qed

theorem blobHandler_lookup_failure_witness:
  \<open>example_store (chi_URLParam (GET_blob ''nonexistent.png'') ''blob_id'') =
     Inl (errorString 1 ''sql: no rows in result set'')
   \<and> fst (blobHandler example_store (GET_blob ''nonexistent.png'') ([] :: unit ResponseWriter, init_world)) =
       [http_Error
          ''{"err":"sql: no rows in result set","message":"sql: no rows in result set"}'' 400]\<close>
proof -
  note a = blobHandler_lookup_failure [of example_store "GET_blob ''nonexistent.png''"
      "errorString 1 ''sql: no rows in result set''" "[] :: unit ResponseWriter" init_world,
      OF example_store_nonexistent]
  have \<open>fst (blobHandler example_store (GET_blob ''nonexistent.png'') ([] :: unit ResponseWriter, init_world)) =
          [http_Error
             ''{"err":"sql: no rows in result set","message":"sql: no rows in result set"}''
             400]\<close>
    using a by (simp add: json_string_def htmlSafe_def)
  then show ?thesis
    using example_store_nonexistent by blast
qed

subsection \<open>The error envelope\<close>

text \<open>
  C8, as the code has it. \<open>Unwrap\<close> does not give back the error that was wrapped: the
  envelope keeps only the error's text, and \<open>Unwrap\<close> allocates a new \<open>errors.New\<close> error
  with that text. It is a different error value from \<open>ErrNotImplemented\<close> when that was
  wrapped, and the chain of an error made by \<open>fmt.Errorf\<close> with \<open>%w\<close> is gone.
\<close>

theorem Unwrap_yields_wrapped_error_counterexample:
  "fst (Unwrap (Err ErrNotImplemented []) init_world) \<noteq> ErrNotImplemented
   \<and> fst (Unwrap (Err (wrapError 1 ''migrate: no change'' (errorString 0 ''no change'')) [])
             \<lparr>next_ptr = 2, stdout = [], now = 0\<rparr>)
       \<noteq> wrapError 1 ''migrate: no change'' (errorString 0 ''no change'')"
  by (simp add: Unwrap_def Err_def errors_New_def ErrNotImplemented_def init_world_def)

text \<open>
  C8 (amended). For every error wrapped by \<open>Err\<close>, with or without a message override,
  \<open>Unwrap\<close> yields an error whose text is the text of the wrapped error, and the wire
  payload is the JSON object with exactly the two string members \<open>err\<close> (the error's
  text) and \<open>message\<close> (the override if one is given, the error's text otherwise): read
  back, it is an object of strings with the keys \<open>err\<close> and \<open>message\<close> and no other.
\<close>

theorem Unwrap_recovers_error_text:
  \<open>error_Error (fst (Unwrap (Err err message) s)) = error_Error err
   \<and> fst (JSON (Err err message) s) =
       ''{"err":'' @ json_string (error_Error err) @ '',"message":'' @
       json_string (case message of [] \<Rightarrow> error_Error err | m # _ \<Rightarrow> m) @ ''}''
   \<and> string_fields (fst (JSON (Err err message) s)) = Some [''err'', ''message'']\<close>
proof -
  have "error_Error (fst (Unwrap (Err err message) s)) = error_Error err"
    by (simp add: Unwrap_def errors_New_def Err_field_Err)
  moreover
  have body: \<open>fst (JSON (Err err message) s) =
          ''{"err":'' @ json_string (error_Error err) @ '',"message":'' @
          json_string (case message of [] \<Rightarrow> error_Error err | m # _ \<Rightarrow> m) @ ''}''\<close>
    by (simp add: JSON_Err)
  moreover
  have "string_fields (fst (JSON (Err err message) s)) = Some [''err'', ''message'']"
    unfolding body by (rule string_fields_JSON)
  ultimately show ?thesis by blast
qed

subsection \<open>The \<open>withError\<close> adapter\<close>

text \<open>
  C9. When the handler returns a nil result and a nil error, \<open>withError\<close> makes the error
  \<open>no response\<close>, prints it, and replies through \<open>http.Error\<close> with the envelope whose
  \<open>err\<close> and \<open>message\<close> are both \<open>no response\<close>, under the status code the handler
  returned; nothing is written through the JSON encoder.
\<close>

theorem withError_no_response:
  assumes "next r ws = ((None, code, None), w, s)"
  shows \<open>fst (withError Encode next r ws) =
           w @ [http_Error ''{"err":"no response","message":"no response"}'' code]
         \<and> encoded (fst (withError Encode next r ws)) = encoded w
         \<and> stdout (snd (withError Encode next r ws)) = stdout s @ [''no response\<newline>'']\<close>
  using assms
  by (simp add: withError_def errors_New_def reply_error_eq encoded_append
      json_string_no_response fmt_Println_def)

theorem withError_no_response_witness:
  \<open>silent_handler (GET_blob ''a.png'') ([] :: unit ResponseWriter, init_world) = ((None, 200, None), [], init_world)
   \<and> fst (withError (\<lambda>v. None) silent_handler (GET_blob ''a.png'') ([] :: unit ResponseWriter, init_world)) =
       [http_Error ''{"err":"no response","message":"no response"}'' 200]\<close>
proof -
  have h: "silent_handler (GET_blob ''a.png'') ([] :: unit ResponseWriter, init_world) =
             ((None, 200, None), [], init_world)"
    by (simp add: silent_handler_def)
  note a = withError_no_response [of silent_handler "GET_blob ''a.png''" "([] :: unit ResponseWriter, init_world)"
      200 "[] :: unit ResponseWriter" init_world "\<lambda>v. None", OF h]
  have \<open>fst (withError (\<lambda>v. None) silent_handler (GET_blob ''a.png'') ([] :: unit ResponseWriter, init_world)) =
          [http_Error ''{"err":"no response","message":"no response"}'' 200]\<close>
    using a by simp
  then show ?thesis
    using h by blast
qed

end
